theory Spec2Isabelle
  imports Complex_Main
begin

section \<open>The heurist Stable Diffusion miner (sd-miner-v1.1.0.py)\<close>

text \<open>
  The miner is a polling loop around calls into the library \<open>sd_mining_core\<close>, the clock
  and the HTTP layer. None of these is part of the file, so each call is an input of the
  model: the record \<open>world\<close> holds, for one iteration of the worker loop, what every
  clock reading and every library call gives back. A library call may raise, so its
  answer is a sum, \<open>Inl\<close> the exception. What the iteration does to the outside is
  written to a trace of events, in program order; \<open>config\<close> is mutated in place by the
  source and threaded through here. Clock readings are Python floats, taken as reals.
\<close>

subsection \<open>Python values, exceptions, outcomes\<close>

datatype pyval =
    PNone
  | PBool bool
  | PInt int
  | PStr string
  | PDict "(string \<times> pyval) list"

type_synonym pydict = "(string \<times> pyval) list"

datatype reason = MinerIdForGpuNotFound nat | MinerIdNotFoundInEnv

datatype exn =
    ValueError reason
  | KeyError string
  | IndexError
  | LibraryError string

text \<open>
  \<open>Raises\<close> stands for an exception below \<open>Exception\<close>; \<open>SysExit\<close> for the
  \<open>SystemExit\<close> of \<open>sys.exit\<close>, which \<open>except Exception\<close> does not catch.
\<close>

datatype 'a outcome = Returns 'a | Raises exn | SysExit int

datatype level = DEBUG | INFO | ERROR

datatype message =
    HeartbeatUpdated real string string string
  | FailedSignalResponse string
  | NoModelsFound
  | NoJobReceived
  | ProcessingRequest pyval pyval
  | ErrorOccurred exn
  | WarningText string
  | MinerIdNotFoundForGpu nat
  | MinerIdWithout0x string nat
  | MinerIdNotFound
  | DevicesGreaterThanAvailable

datatype event =
    PostRequest string pydict string
  | Log level message
  | Print message
  | ReloadModel string
  | SubmitJobResult string pydict pyval real real
  | Sleep real
  | StartModelUpdater
  | SpawnWorker nat

subsection \<open>Configuration and responses\<close>

record config =
  miner_id :: string
  base_url :: string
  signal_url :: string
  version :: string
  reload_interval :: real
  sleep_duration :: real
  min_deadline :: int
  num_cuda_devices :: nat
  exclude_sdxl :: bool
  last_heartbeat :: real
  loaded_models :: "string list"

text \<open>
  What \<open>post_request\<close> hands back: \<open>None\<close>, or a response object. \<open>json_model_id\<close> is
  \<open>response.json().get('model_id')\<close>: the call may raise, and the key may be absent.
\<close>

record response =
  status_code :: int
  text_of :: string
  json_model_id :: "exn + string option"

text \<open>A \<open>requests\<close> response is truthy when its status is no client or server error.\<close>

definition response_truthy :: "response option \<Rightarrow> bool" where
  "response_truthy r =
     (case r of None \<Rightarrow> False
      | Some x \<Rightarrow> \<not> (400 \<le> status_code x \<and> status_code x < 600))"

record world =
  t_check :: real
  signal_response :: "exn + response option"
  local_ids_at_reload :: "exn + string list"
  reload_result :: "exn + string list"
  local_ids :: "exn + string list"
  t_heartbeat_check :: real
  t_heartbeat_set :: real
  hardware :: "exn + string"
  t_start :: real
  t_end :: real
  miner_response :: "exn + response option"
  response_data :: "exn + pydict option"
  t_job_start :: real
  submit_result :: "exn + unit"

subsection \<open>check_and_reload_model\<close>

text \<open>\<open>x in xs\<close> for an id that may be \<open>None\<close>, in a collection of strings.\<close>

definition py_in :: "string option \<Rightarrow> string list \<Rightarrow> bool" where
  "py_in x xs = (case x of None \<Rightarrow> False | Some m \<Rightarrow> m \<in> set xs)"

definition signal_request :: "config \<Rightarrow> event" where
  "signal_request cfg =
     PostRequest (signal_url cfg @ ''/miner_signal'')
       [(''miner_id'', PStr (miner_id cfg)),
        (''options'', PDict [(''exclude_sdxl'', PBool (exclude_sdxl cfg))])]
       (miner_id cfg)"

text \<open>The last line of the function: the value handed back to the loop.\<close>

definition returned_signal_time :: "config \<Rightarrow> real \<Rightarrow> real \<Rightarrow> real" where
  "returned_signal_time cfg current_time last_signal_time =
     (if current_time - last_signal_time < reload_interval cfg
      then last_signal_time else current_time)"

definition check_and_reload_model ::
  "config \<Rightarrow> real \<Rightarrow> world \<Rightarrow> config \<times> event list \<times> real outcome" where
  "check_and_reload_model cfg last_signal_time w =
     (let current_time = t_check w in
      if current_time - last_signal_time \<ge> reload_interval cfg then
        (case signal_response w of
           Inl e \<Rightarrow> (cfg, [signal_request cfg], Raises e)
         | Inr resp \<Rightarrow>
             (case resp of
                Some r \<Rightarrow>
                  if response_truthy resp \<and> status_code r = 200 then
                    (case json_model_id r of
                       Inl e \<Rightarrow> (cfg, [signal_request cfg], Raises e)
                     | Inr model_id_from_signal \<Rightarrow>
                         (case local_ids_at_reload w of
                            Inl e \<Rightarrow> (cfg, [signal_request cfg], Raises e)
                          | Inr ids \<Rightarrow>
                              if py_in model_id_from_signal ids
                                 \<and> \<not> py_in model_id_from_signal (loaded_models cfg)
                              then
                                (case reload_result w of
                                   Inl e \<Rightarrow>
                                     (cfg,
                                      [signal_request cfg,
                                       ReloadModel (the model_id_from_signal)],
                                      Raises e)
                                 | Inr loaded \<Rightarrow>
                                     (cfg\<lparr>loaded_models := loaded\<rparr>,
                                      [signal_request cfg,
                                       ReloadModel (the model_id_from_signal)],
                                      Returns
                                        (returned_signal_time cfg current_time current_time)))
                              else
                                (cfg, [signal_request cfg],
                                 Returns
                                   (returned_signal_time cfg current_time last_signal_time))))
                  else
                    (cfg,
                     [signal_request cfg, Log ERROR (FailedSignalResponse (miner_id cfg))],
                     Returns (returned_signal_time cfg current_time last_signal_time))
              | None \<Rightarrow>
                  (cfg,
                   [signal_request cfg, Log ERROR (FailedSignalResponse (miner_id cfg))],
                   Returns (returned_signal_time cfg current_time last_signal_time))))
      else
        (cfg, [], Returns (returned_signal_time cfg current_time last_signal_time)))"

subsection \<open>send_miner_request\<close>

text \<open>
  The text after the first \<open>Warning:\<close> up to the next one, without the quotation marks
  around it: \<open>response.text.split("Warning:")[1].strip('"')\<close>.
\<close>

fun contains :: "string \<Rightarrow> string \<Rightarrow> bool" where
  "contains sep [] = (sep = [])"
| "contains sep (c # cs) = (take (length sep) (c # cs) = sep \<or> contains sep cs)"

fun before_first :: "string \<Rightarrow> string \<Rightarrow> string" where
  "before_first sep [] = []"
| "before_first sep (c # cs) =
     (if take (length sep) (c # cs) = sep then [] else c # before_first sep cs)"

fun after_first :: "string \<Rightarrow> string \<Rightarrow> string" where
  "after_first sep [] = []"
| "after_first sep (c # cs) =
     (if take (length sep) (c # cs) = sep then drop (length sep) (c # cs)
      else after_first sep cs)"

definition strip_quotes :: "string \<Rightarrow> string" where
  "strip_quotes s =
     rev (dropWhile (\<lambda>c. c = CHR 0x22) (rev (dropWhile (\<lambda>c. c = CHR 0x22) s)))"

definition warning_message :: "string \<Rightarrow> string" where
  "warning_message txt =
     strip_quotes (before_first ''Warning:'' (after_first ''Warning:'' txt))"

definition warning_events :: "response option \<Rightarrow> event list" where
  "warning_events resp =
     (case resp of
        None \<Rightarrow> []
      | Some r \<Rightarrow>
          if response_truthy resp \<and> contains ''Warning:'' (text_of r)
          then [Print (WarningText (warning_message (text_of r)))] else [])"

definition dict_truthy :: "pydict option \<Rightarrow> bool" where
  "dict_truthy d = (case d of None \<Rightarrow> False | Some kvs \<Rightarrow> kvs \<noteq> [])"

definition has_key :: "string \<Rightarrow> pydict option \<Rightarrow> bool" where
  "has_key k d = (case d of None \<Rightarrow> False | Some kvs \<Rightarrow> map_of kvs k \<noteq> None)"

text \<open>
  The friendly message of a valid job. The \<open>try\<close> around it has nothing to catch when
  the response data is a dictionary or \<open>None\<close>, so its handler has no branch here.
\<close>

definition job_events :: "pydict option \<Rightarrow> event list" where
  "job_events d =
     (if dict_truthy d \<and> has_key ''job_id'' d \<and> has_key ''model_id'' d
      then [Print (ProcessingRequest (the (map_of (the d) ''job_id''))
                                    (the (map_of (the d) ''model_id'')))]
      else [])"

definition miner_request :: "config \<Rightarrow> pydict \<Rightarrow> event" where
  "miner_request cfg request_data =
     PostRequest (base_url cfg @ ''/miner_request'') request_data (miner_id cfg)"

text \<open>From \<open>start_time = time.time()\<close> to the end, with the request body built.\<close>

definition post_miner_request ::
  "config \<Rightarrow> pydict \<Rightarrow> world \<Rightarrow> event list \<times> (pydict option \<times> real) outcome" where
  "post_miner_request cfg request_data w =
     (let start_time = t_start w in
      case miner_response w of
        Inl e \<Rightarrow> ([miner_request cfg request_data], Raises e)
      | Inr resp \<Rightarrow>
          (let end_time = t_end w;
               request_latency = end_time - start_time in
           case response_data w of
             Inl e \<Rightarrow>
               ([miner_request cfg request_data] @ warning_events resp, Raises e)
           | Inr d \<Rightarrow>
               ([miner_request cfg request_data] @ warning_events resp @ job_events d,
                Returns (d, request_latency))))"

definition send_miner_request ::
  "config \<Rightarrow> pyval \<Rightarrow> int \<Rightarrow> world
     \<Rightarrow> config \<times> event list \<times> (pydict option \<times> real) outcome" where
  "send_miner_request cfg model_id deadline w =
     (let request_data =
            [(''miner_id'', PStr (miner_id cfg)),
             (''model_id'', model_id),
             (''min_deadline'', PInt deadline)] in
      if t_heartbeat_check w - last_heartbeat cfg \<ge> 60 then
        (case hardware w of
           Inl e \<Rightarrow> (cfg, [], Raises e)
         | Inr hw \<Rightarrow>
             (let request_data' =
                    request_data @ [(''hardware'', PStr hw), (''version'', PStr (version cfg))];
                  cfg' = cfg\<lparr>last_heartbeat := t_heartbeat_set w\<rparr>;
                  (evs, r) = post_miner_request cfg' request_data' w in
              (cfg',
               Log DEBUG (HeartbeatUpdated (last_heartbeat cfg') hw (version cfg) (miner_id cfg))
                 # evs,
               r)))
      else
        (let (evs, r) = post_miner_request cfg request_data w in (cfg, evs, r)))"

subsection \<open>process_jobs\<close>

definition current_model :: "config \<Rightarrow> pyval" where
  "current_model cfg = (case loaded_models cfg of [] \<Rightarrow> PNone | m # _ \<Rightarrow> PStr m)"

text \<open>After a truthy \<open>job\<close> came back: log it, submit the result, report "executed".\<close>

definition execute_job ::
  "config \<Rightarrow> pydict \<Rightarrow> real \<Rightarrow> world \<Rightarrow> event list \<times> bool outcome" where
  "execute_job cfg job request_latency w =
     (let job_start_time = t_job_start w in
      case map_of job ''job_id'' of
        None \<Rightarrow> ([], Raises (KeyError ''job_id''))
      | Some jid \<Rightarrow>
          (case map_of job ''model_id'' of
             None \<Rightarrow> ([], Raises (KeyError ''model_id''))
           | Some mid \<Rightarrow>
               (case map_of job ''temp_credentials'' of
                  None \<Rightarrow>
                    ([Log INFO (ProcessingRequest jid mid)],
                     Raises (KeyError ''temp_credentials''))
                | Some creds \<Rightarrow>
                    (case submit_result w of
                       Inl e \<Rightarrow>
                         ([Log INFO (ProcessingRequest jid mid),
                           SubmitJobResult (miner_id cfg) job creds job_start_time
                             request_latency],
                          Raises e)
                     | Inr _ \<Rightarrow>
                         ([Log INFO (ProcessingRequest jid mid),
                           SubmitJobResult (miner_id cfg) job creds job_start_time
                             request_latency],
                          Returns True)))))"

definition process_jobs :: "config \<Rightarrow> world \<Rightarrow> config \<times> event list \<times> bool outcome" where
  "process_jobs cfg w =
     (let current_model_id = current_model cfg in
      case local_ids w of
        Inl e \<Rightarrow> (cfg, [], Raises e)
      | Inr model_ids \<Rightarrow>
          if model_ids = [] then (cfg, [Log DEBUG NoModelsFound], SysExit 0)
          else
            (case send_miner_request cfg current_model_id (min_deadline cfg) w of
               (cfg', evs, Raises e) \<Rightarrow> (cfg', evs, Raises e)
             | (cfg', evs, SysExit c) \<Rightarrow> (cfg', evs, SysExit c)
             | (cfg', evs, Returns (job, request_latency)) \<Rightarrow>
                 if \<not> dict_truthy job then (cfg', evs @ [Log INFO NoJobReceived], Returns False)
                 else
                   (let (evs', r) = execute_job cfg' (the job) request_latency w
                    in (cfg', evs @ evs', r))))"

subsection \<open>The worker loop of main\<close>

text \<open>The body of the \<open>try\<close>: the reload check, then the job step.\<close>

definition try_body ::
  "config \<Rightarrow> real \<Rightarrow> world \<Rightarrow> config \<times> real \<times> event list \<times> bool outcome" where
  "try_body cfg last_signal_time w =
     (case check_and_reload_model cfg last_signal_time w of
        (cfg1, evs1, Raises e) \<Rightarrow> (cfg1, last_signal_time, evs1, Raises e)
      | (cfg1, evs1, SysExit c) \<Rightarrow> (cfg1, last_signal_time, evs1, SysExit c)
      | (cfg1, evs1, Returns t) \<Rightarrow>
          (case process_jobs cfg1 w of (cfg2, evs2, r) \<Rightarrow> (cfg2, t, evs1 @ evs2, r)))"

text \<open>
  One turn of \<open>while True\<close>. The last component is the exit status when the turn left
  the process, \<open>None\<close> when the loop goes on.
\<close>

definition main_iteration ::
  "config \<Rightarrow> real \<Rightarrow> world \<Rightarrow> config \<times> real \<times> event list \<times> int option" where
  "main_iteration cfg last_signal_time w =
     (case try_body cfg last_signal_time w of
        (cfg', t, evs, Returns executed) \<Rightarrow>
          (cfg', t, evs @ (if \<not> executed then [Sleep (sleep_duration cfg')] else []), None)
      | (cfg', t, evs, Raises e) \<Rightarrow>
          (cfg', t, evs @ [Log ERROR (ErrorOccurred e)] @ [Sleep (sleep_duration cfg')], None)
      | (cfg', t, evs, SysExit c) \<Rightarrow> (cfg', t, evs, Some c))"

datatype status = Running config real | Exited int | Crashed exn | WaitingForWorkers

text \<open>
  The loop has no exit of its own, so it is run on a list of worlds, one per turn:
  \<open>Running\<close> is the state it is in when they are used up.
\<close>

fun main_loop :: "config \<Rightarrow> real \<Rightarrow> world list \<Rightarrow> event list \<times> status" where
  "main_loop cfg last_signal_time [] = ([], Running cfg last_signal_time)"
| "main_loop cfg last_signal_time (w # ws) =
     (case main_iteration cfg last_signal_time w of
        (cfg', t, evs, Some c) \<Rightarrow> (evs, Exited c)
      | (cfg', t, evs, None) \<Rightarrow>
          (case main_loop cfg' t ws of (evs', st) \<Rightarrow> (evs @ evs', st)))"

subsection \<open>MinerConfig\<close>

definition starts_with_0x :: "string \<Rightarrow> bool" where
  "starts_with_0x s = (take 2 s = ''0x'')"

text \<open>The loop of \<open>_load_and_validate_miner_ids\<close> over \<open>enumerate(miner_ids)\<close>.\<close>

fun validate_miner_ids :: "nat \<Rightarrow> string option list \<Rightarrow> event list \<times> exn option" where
  "validate_miner_ids i [] = ([], None)"
| "validate_miner_ids i (None # rest) =
     ([Print (MinerIdNotFoundForGpu i)], Some (ValueError (MinerIdForGpuNotFound i)))"
| "validate_miner_ids i (Some m # rest) =
     (case validate_miner_ids (Suc i) rest of
        (evs, r) \<Rightarrow>
          ((if \<not> starts_with_0x m then [Print (MinerIdWithout0x m i)] else []) @ evs, r))"

definition load_and_validate_miner_ids ::
  "nat \<Rightarrow> (nat \<Rightarrow> string option) \<Rightarrow> event list \<times> (exn + string option list)" where
  "load_and_validate_miner_ids n getenv =
     (let miner_ids = map getenv [0..<n] in
      case validate_miner_ids 0 miner_ids of
        (evs, Some e) \<Rightarrow> (evs, Inl e)
      | (evs, None) \<Rightarrow> (evs, Inr miner_ids))"

definition str_truthy :: "string option \<Rightarrow> bool" where
  "str_truthy s = (case s of None \<Rightarrow> False | Some x \<Rightarrow> x \<noteq> [])"

definition index :: "'a list \<Rightarrow> nat \<Rightarrow> exn + 'a" where
  "index xs i = (if i < length xs then Inr (xs ! i) else Inl IndexError)"

definition assign_first :: "string option list \<Rightarrow> event list \<times> (exn + string)" where
  "assign_first miner_ids =
     (case index miner_ids 0 of
        Inl e \<Rightarrow> ([], Inl e)
      | Inr v \<Rightarrow>
          if str_truthy v then ([], Inr (the v))
          else ([Print MinerIdNotFound], Inl (ValueError MinerIdNotFoundInEnv)))"

definition assign_miner_id ::
  "nat \<Rightarrow> string option list \<Rightarrow> nat \<Rightarrow> event list \<times> (exn + string)" where
  "assign_miner_id n miner_ids cuda_device_id =
     (if n > 1 then
        (case index miner_ids cuda_device_id of
           Inl e \<Rightarrow> ([], Inl e)
         | Inr v \<Rightarrow> if str_truthy v then ([], Inr (the v)) else assign_first miner_ids)
      else assign_first miner_ids)"

text \<open>
  The constructor, after \<open>BaseConfig.__init__\<close> has filled \<open>base\<close>; \<open>getenv i\<close> is
  \<open>os.getenv('MINER_ID_i')\<close> once \<open>load_dotenv\<close> has run.
\<close>

definition MinerConfig ::
  "config \<Rightarrow> (nat \<Rightarrow> string option) \<Rightarrow> nat \<Rightarrow> event list \<times> (exn + config)" where
  "MinerConfig base getenv cuda_device_id =
     (case load_and_validate_miner_ids (num_cuda_devices base) getenv of
        (evs, Inl e) \<Rightarrow> (evs, Inl e)
      | (evs, Inr miner_ids) \<Rightarrow>
          (case assign_miner_id (num_cuda_devices base) miner_ids cuda_device_id of
             (evs', Inl e) \<Rightarrow> (evs @ evs', Inl e)
           | (evs', Inr m) \<Rightarrow> (evs @ evs', Inr (base\<lparr>miner_id := m\<rparr>))))"

subsection \<open>main and the supervisor\<close>

record startup =
  base_config :: "exn + config"
  getenv :: "nat \<Rightarrow> string option"
  set_device :: "exn + unit"
  initialize_logging_and_args :: "config \<Rightarrow> exn + config"
  fetch_and_download_config_files :: "exn + unit"
  load_default_model :: "exn + string list"
  t_loop_start :: real
  device_count :: nat
  check_cuda :: "unit outcome"

definition load_config :: "startup \<Rightarrow> nat \<Rightarrow> event list \<times> (exn + config)" where
  "load_config s cuda_device_id =
     (case base_config s of
        Inl e \<Rightarrow> ([], Inl e)
      | Inr base \<Rightarrow> MinerConfig base (getenv s) cuda_device_id)"

text \<open>\<open>main(cuda_device_id)\<close>: an exception before the loop is not caught by anything.\<close>

definition main :: "nat \<Rightarrow> startup \<Rightarrow> world list \<Rightarrow> event list \<times> status" where
  "main cuda_device_id s ws =
     (case set_device s of
        Inl e \<Rightarrow> ([], Crashed e)
      | Inr _ \<Rightarrow>
          (case load_config s cuda_device_id of
             (evs, Inl e) \<Rightarrow> (evs, Crashed e)
           | (evs, Inr cfg0) \<Rightarrow>
               (case initialize_logging_and_args s cfg0 of
                  Inl e \<Rightarrow> (evs, Crashed e)
                | Inr cfg1 \<Rightarrow>
                    (case fetch_and_download_config_files s of
                       Inl e \<Rightarrow> (evs, Crashed e)
                     | Inr _ \<Rightarrow>
                         (case load_default_model s of
                            Inl e \<Rightarrow> (evs, Crashed e)
                          | Inr loaded \<Rightarrow>
                              (case main_loop (cfg1\<lparr>loaded_models := loaded\<rparr>)
                                      (t_loop_start s) ws of
                                 (evs', st) \<Rightarrow> (evs @ evs', st)))))))"

text \<open>
  The \<open>__main__\<close> block up to the point where it waits for its workers. Signals
  arrive from outside at any moment and are not part of this function.
\<close>

definition supervisor :: "startup \<Rightarrow> event list \<times> status" where
  "supervisor s =
     (case load_config s 0 of
        (evs, Inl e) \<Rightarrow> (evs, Crashed e)
      | (evs, Inr cfg0) \<Rightarrow>
          (case initialize_logging_and_args s cfg0 of
             Inl e \<Rightarrow> (evs, Crashed e)
           | Inr cfg \<Rightarrow>
               if num_cuda_devices cfg > device_count s
               then (evs @ [Print DevicesGreaterThanAvailable], Exited 1)
               else
                 (case check_cuda s of
                    Raises e \<Rightarrow> (evs, Crashed e)
                  | SysExit c \<Rightarrow> (evs, Exited c)
                  | Returns _ \<Rightarrow>
                      (case fetch_and_download_config_files s of
                         Inl e \<Rightarrow> (evs, Crashed e)
                       | Inr _ \<Rightarrow>
                           (evs @ [StartModelUpdater]
                              @ map SpawnWorker [0..<num_cuda_devices cfg],
                            WaitingForWorkers)))))"

subsection \<open>Concrete inputs\<close>

text \<open>
  One device, miner id \<open>0x123\<close>, model \<open>m1\<close> loaded, \<open>m1\<close> and \<open>m2\<close> on disk; a world
  in which the coordinator has no job and the signal endpoint does not answer.
\<close>

definition example_config :: config where
  "example_config =
     \<lparr>miner_id = ''0x123'', base_url = ''https://coordinator'',
      signal_url = ''https://signal'', version = ''1.1.0'', reload_interval = 600,
      sleep_duration = 2, min_deadline = 1, num_cuda_devices = 1, exclude_sdxl = False,
      last_heartbeat = 1000, loaded_models = [''m1'']\<rparr>"

definition example_world :: world where
  "example_world =
     \<lparr>t_check = 1001, signal_response = Inr None,
      local_ids_at_reload = Inr [''m1'', ''m2''], reload_result = Inr [''m2''],
      local_ids = Inr [''m1'', ''m2''], t_heartbeat_check = 1002, t_heartbeat_set = 1003,
      hardware = Inr ''GPU'', t_start = 1004, t_end = 1005, miner_response = Inr None,
      response_data = Inr None, t_job_start = 1006, submit_result = Inr ()\<rparr>"

definition signal_m2 :: response where
  "signal_m2 = \<lparr>status_code = 200, text_of = [], json_model_id = Inr (Some ''m2'')\<rparr>"

definition example_job :: pydict where
  "example_job =
     [(''job_id'', PStr ''j1''), (''model_id'', PStr ''m1''),
      (''temp_credentials'', PDict [])]"

text \<open>Two devices whose variables \<open>MINER_ID_0\<close> and \<open>MINER_ID_1\<close> hold the same id.\<close>

definition same_ids :: "nat \<Rightarrow> string option" where
  "same_ids i = (if i < 2 then Some ''0x123'' else None)"

text \<open>A host with one CUDA device and a configuration that asks for two.\<close>

definition example_startup :: startup where
  "example_startup =
     \<lparr>base_config = Inr (example_config\<lparr>num_cuda_devices := 2\<rparr>), getenv = same_ids,
      set_device = Inr (), initialize_logging_and_args = Inr,
      fetch_and_download_config_files = Inr (), load_default_model = Inr [''m1''],
      t_loop_start = 1000, device_count = 1, check_cuda = Returns ()\<rparr>"

text \<open>
  \<open>MINER_ID_0\<close> set, \<open>MINER_ID_1\<close> present but blank (a line \<open>MINER_ID_1=\<close> in
  \<open>.env\<close>).
\<close>

definition blank_second :: "nat \<Rightarrow> string option" where
  "blank_second i = (if i = 0 then Some ''0x123'' else if i = 1 then Some [] else None)"

text \<open>
  A reload interval of one microsecond, and a disk without models read ten
  microseconds after the loop took its first clock reading at \<open>1000\<close>.
\<close>

definition hasty_config :: config where
  "hasty_config = example_config\<lparr>reload_interval := 1 / 1000000\<rparr>"

definition empty_world :: world where
  "empty_world = example_world\<lparr>t_check := 1000 + 1 / 100000, local_ids := Inr []\<rparr>"

section \<open>Properties\<close>

subsection \<open>The reload check\<close>

lemma returned_signal_time_due:
  "reload_interval cfg \<le> t - t0 \<Longrightarrow> returned_signal_time cfg t t0 = t"
  by (simp add: returned_signal_time_def)

text \<open>
  C2, as the code has it. When the check is due and the signal endpoint gives no
  response or one whose status is not 200, the failure is logged, the configuration
  comes back as it went in and no model is reloaded; the time handed back to the loop
  is the current time, so the window starts again, and is not the time passed in.
\<close>

theorem failed_check_resets_window:
  assumes due: "t_check w - last_signal_time \<ge> reload_interval cfg"
    and resp: "signal_response w = Inr resp"
    and bad: "resp = None \<or> (\<exists>r. resp = Some r \<and> status_code r \<noteq> 200)"
  shows "check_and_reload_model cfg last_signal_time w =
           (cfg, [signal_request cfg, Log ERROR (FailedSignalResponse (miner_id cfg))],
            Returns (t_check w))"
  using assms
  by (auto simp: check_and_reload_model_def Let_def returned_signal_time_due)

theorem failed_check_resets_window_witness:
  "check_and_reload_model example_config 0 (example_world\<lparr>t_check := 700\<rparr>) =
     (example_config,
      [signal_request example_config, Log ERROR (FailedSignalResponse ''0x123'')],
      Returns 700)"
  using failed_check_resets_window [of example_config "example_world\<lparr>t_check := 700\<rparr>" 0 None]
  by (simp add: example_config_def example_world_def)

text \<open>
  C2 as the claim words it fails: with the last check at 0, the clock at 700, an
  interval of 600 and no response, the time handed back is not 0.
\<close>

theorem failed_check_counterexample:
  "reload_interval example_config \<le> t_check (example_world\<lparr>t_check := 700\<rparr>) - 0 \<and>
   signal_response (example_world\<lparr>t_check := 700\<rparr>) = Inr None \<and>
   snd (snd (check_and_reload_model example_config 0 (example_world\<lparr>t_check := 700\<rparr>)))
     \<noteq> Returns 0"
  by (simp add: check_and_reload_model_def example_config_def example_world_def
      returned_signal_time_def response_truthy_def)

text \<open>
  C3. A request to the signal endpoint is in the trace of \<open>check_and_reload_model\<close>
  only when the time since the last check is at least \<open>reload_interval\<close>; and
  \<open>reload_model\<close> is called for a model only when a response with status 200 named it,
  it is in the local storage and it is not among the loaded models.
\<close>

theorem reload_check_gated:
  assumes "check_and_reload_model cfg last_signal_time w = (cfg', evs, r)"
  shows "((\<exists>url body m. PostRequest url body m \<in> set evs) \<longrightarrow>
            t_check w - last_signal_time \<ge> reload_interval cfg) \<and>
         (\<forall>m. ReloadModel m \<in> set evs \<longrightarrow>
            (\<exists>resp ids. signal_response w = Inr (Some resp) \<and> status_code resp = 200 \<and>
               json_model_id resp = Inr (Some m) \<and>
               local_ids_at_reload w = Inr ids \<and> m \<in> set ids) \<and>
            m \<notin> set (loaded_models cfg))"
  using assms
  by (auto simp: check_and_reload_model_def Let_def signal_request_def py_in_def
      split: if_splits sum.splits option.splits)

theorem reload_check_gated_witness:
  "ReloadModel ''m2'' \<in> set (fst (snd (check_and_reload_model example_config 0
      (example_world\<lparr>t_check := 700, signal_response := Inr (Some signal_m2)\<rparr>)))) \<and>
   ''m2'' \<notin> set (loaded_models example_config) \<and>
   reload_interval example_config \<le> 700 - 0"
  using reload_check_gated [of example_config 0
      "example_world\<lparr>t_check := 700, signal_response := Inr (Some signal_m2)\<rparr>"
      "example_config\<lparr>loaded_models := [''m2'']\<rparr>"
      "[signal_request example_config, ReloadModel ''m2'']" "Returns 700"]
  by (simp add: check_and_reload_model_def example_config_def example_world_def
      returned_signal_time_def response_truthy_def signal_m2_def py_in_def)

subsection \<open>The job request\<close>

lemma post_miner_request_events:
  "post_miner_request cfg body w = (evs, r) \<Longrightarrow> ev \<in> set evs \<Longrightarrow>
     ev = miner_request cfg body \<or> (\<exists>m. ev = Print m)"
  by (auto simp: post_miner_request_def Let_def warning_events_def job_events_def
      split: sum.splits option.splits if_splits)

lemma post_miner_request_hd:
  "post_miner_request cfg body w = (evs, r) \<Longrightarrow> \<exists>rest. evs = miner_request cfg body # rest"
  by (auto simp: post_miner_request_def Let_def split: sum.splits)

lemma send_miner_request_stale:
  assumes "t_heartbeat_check w - last_heartbeat cfg \<ge> 60" and "hardware w = Inr hw"
    and "send_miner_request cfg model_id deadline w = (cfg', evs, r)"
  shows "\<exists>rest. cfg' = cfg\<lparr>last_heartbeat := t_heartbeat_set w\<rparr> \<and>
           evs = Log DEBUG (HeartbeatUpdated (t_heartbeat_set w) hw (version cfg) (miner_id cfg))
                 # PostRequest (base_url cfg @ ''/miner_request'')
                     [(''miner_id'', PStr (miner_id cfg)), (''model_id'', model_id),
                      (''min_deadline'', PInt deadline), (''hardware'', PStr hw),
                      (''version'', PStr (version cfg))] (miner_id cfg)
                 # rest \<and>
           (\<forall>ev \<in> set rest. \<exists>m. ev = Print m)"
proof -
  let ?c = "cfg\<lparr>last_heartbeat := t_heartbeat_set w\<rparr>"
  let ?b = "[(''miner_id'', PStr (miner_id cfg)), (''model_id'', model_id),
             (''min_deadline'', PInt deadline), (''hardware'', PStr hw),
             (''version'', PStr (version cfg))]"
  obtain evs0 r0 where p: "post_miner_request ?c ?b w = (evs0, r0)"
    by (cases "post_miner_request ?c ?b w")
  from post_miner_request_hd [OF p] obtain rest where h: "evs0 = miner_request ?c ?b # rest"
    by blast
  have "\<forall>ev \<in> set rest. \<exists>m. ev = Print m"
    using p h
    by (auto simp: post_miner_request_def Let_def warning_events_def job_events_def
        split: sum.splits option.splits if_splits)
  moreover from assms p h have "cfg' = ?c"
    and "evs = Log DEBUG (HeartbeatUpdated (t_heartbeat_set w) hw (version cfg) (miner_id cfg))
                 # miner_request ?c ?b # rest"
    by (auto simp: send_miner_request_def Let_def)
  ultimately show ?thesis
    by (simp add: miner_request_def)
qed

lemma send_miner_request_fresh:
  assumes "\<not> t_heartbeat_check w - last_heartbeat cfg \<ge> 60"
    and "send_miner_request cfg model_id deadline w = (cfg', evs, r)"
  shows "\<exists>rest. cfg' = cfg \<and>
           evs = PostRequest (base_url cfg @ ''/miner_request'')
                     [(''miner_id'', PStr (miner_id cfg)), (''model_id'', model_id),
                      (''min_deadline'', PInt deadline)] (miner_id cfg)
                 # rest \<and>
           (\<forall>ev \<in> set rest. \<exists>m. ev = Print m)"
proof -
  let ?b = "[(''miner_id'', PStr (miner_id cfg)), (''model_id'', model_id),
             (''min_deadline'', PInt deadline)]"
  obtain evs0 r0 where p: "post_miner_request cfg ?b w = (evs0, r0)"
    by (cases "post_miner_request cfg ?b w")
  from post_miner_request_hd [OF p] obtain rest where h: "evs0 = miner_request cfg ?b # rest"
    by blast
  have "\<forall>ev \<in> set rest. \<exists>m. ev = Print m"
    using p h
    by (auto simp: post_miner_request_def Let_def warning_events_def job_events_def
        split: sum.splits option.splits if_splits)
  moreover from assms p h have "cfg' = cfg" and "evs = miner_request cfg ?b # rest"
    by (auto simp: send_miner_request_def Let_def)
  ultimately show ?thesis
    by (simp add: miner_request_def)
qed

lemma send_miner_request_no_hardware:
  assumes "t_heartbeat_check w - last_heartbeat cfg \<ge> 60" and "hardware w = Inl e"
    and "send_miner_request cfg model_id deadline w = (cfg', evs, r)"
  shows "cfg' = cfg \<and> evs = [] \<and> r = Raises e"
  using assms by (auto simp: send_miner_request_def)

text \<open>
  C4. In every call of \<open>send_miner_request\<close>, a request that goes out carries
  \<open>hardware\<close> and \<open>version\<close> exactly when the clock is at least 60 seconds past
  \<open>last_heartbeat\<close>, and \<open>last_heartbeat\<close> is then set once, to the clock, and left
  alone otherwise. The heartbeat is logged, with the new time, ahead of the request in
  the trace, and nothing here depends on what \<open>post_request\<close> answers: it holds when
  the request raises as well. When no request goes out (the hardware description
  raised), nothing was attached and the heartbeat has not moved.
\<close>

theorem heartbeat_attachment:
  assumes run: "send_miner_request cfg model_id deadline w = (cfg', evs, r)"
  shows "(\<forall>url body m. PostRequest url body m \<in> set evs \<longrightarrow>
            (map_of body ''hardware'' \<noteq> None) = (t_heartbeat_check w - last_heartbeat cfg \<ge> 60) \<and>
            (map_of body ''version'' \<noteq> None) = (t_heartbeat_check w - last_heartbeat cfg \<ge> 60) \<and>
            cfg' = (if t_heartbeat_check w - last_heartbeat cfg \<ge> 60
                    then cfg\<lparr>last_heartbeat := t_heartbeat_set w\<rparr> else cfg)) \<and>
         ((\<forall>url body m. PostRequest url body m \<notin> set evs) \<longrightarrow> cfg' = cfg \<and> evs = []) \<and>
         (\<forall>hw. t_heartbeat_check w - last_heartbeat cfg \<ge> 60 \<and> hardware w = Inr hw \<longrightarrow>
            (\<exists>body rest.
               evs = Log DEBUG (HeartbeatUpdated (t_heartbeat_set w) hw (version cfg) (miner_id cfg))
                       # PostRequest (base_url cfg @ ''/miner_request'') body (miner_id cfg) # rest)) \<and>
         (\<not> t_heartbeat_check w - last_heartbeat cfg \<ge> 60 \<longrightarrow>
            (\<exists>body rest.
               evs = PostRequest (base_url cfg @ ''/miner_request'') body (miner_id cfg) # rest))"
proof (cases "t_heartbeat_check w - last_heartbeat cfg \<ge> 60")
  case stale: True
  show ?thesis
  proof (cases "hardware w")
    case (Inl e)
    from send_miner_request_no_hardware [OF stale Inl run] stale Inl show ?thesis
      by simp
  next
    case (Inr hw)
    from send_miner_request_stale [OF stale Inr run] obtain rest where
      c: "cfg' = cfg\<lparr>last_heartbeat := t_heartbeat_set w\<rparr>" and
      e: "evs = Log DEBUG (HeartbeatUpdated (t_heartbeat_set w) hw (version cfg) (miner_id cfg))
                 # PostRequest (base_url cfg @ ''/miner_request'')
                     [(''miner_id'', PStr (miner_id cfg)), (''model_id'', model_id),
                      (''min_deadline'', PInt deadline), (''hardware'', PStr hw),
                      (''version'', PStr (version cfg))] (miner_id cfg)
                 # rest" and
      p: "\<forall>ev \<in> set rest. \<exists>m. ev = Print m"
      by blast
    from p have n: "\<And>url body m. PostRequest url body m \<notin> set rest"
      by auto
    show ?thesis
      using stale Inr c by (simp add: e n)
  qed
next
  case fresh: False
  from send_miner_request_fresh [OF fresh run] obtain rest where
    c: "cfg' = cfg" and
    e: "evs = PostRequest (base_url cfg @ ''/miner_request'')
                     [(''miner_id'', PStr (miner_id cfg)), (''model_id'', model_id),
                      (''min_deadline'', PInt deadline)] (miner_id cfg)
                 # rest" and
    p: "\<forall>ev \<in> set rest. \<exists>m. ev = Print m"
    by blast
  from p have n: "\<And>url body m. PostRequest url body m \<notin> set rest"
    by auto
  show ?thesis
    using fresh c by (simp add: e n)
qed

theorem heartbeat_attachment_witness:
  "PostRequest ''https://coordinator/miner_request''
      [(''miner_id'', PStr ''0x123''), (''model_id'', PStr ''m1''), (''min_deadline'', PInt 1),
       (''hardware'', PStr ''GPU''), (''version'', PStr ''1.1.0'')] ''0x123''
     \<in> set (fst (snd (send_miner_request example_config (PStr ''m1'') 1
          (example_world\<lparr>t_heartbeat_check := 1060, miner_response := Inl (LibraryError ''timeout'')\<rparr>)))) \<and>
   fst (send_miner_request example_config (PStr ''m1'') 1
          (example_world\<lparr>t_heartbeat_check := 1060, miner_response := Inl (LibraryError ''timeout'')\<rparr>))
     = example_config\<lparr>last_heartbeat := 1003\<rparr>"
  using heartbeat_attachment [of example_config "PStr ''m1''" 1
      "example_world\<lparr>t_heartbeat_check := 1060, miner_response := Inl (LibraryError ''timeout'')\<rparr>"
      "example_config\<lparr>last_heartbeat := 1003\<rparr>"
      "[Log DEBUG (HeartbeatUpdated 1003 ''GPU'' ''1.1.0'' ''0x123''),
        PostRequest ''https://coordinator/miner_request''
      [(''miner_id'', PStr ''0x123''), (''model_id'', PStr ''m1''), (''min_deadline'', PInt 1),
       (''hardware'', PStr ''GPU''), (''version'', PStr ''1.1.0'')] ''0x123'']"
      "Raises (LibraryError ''timeout'')"]
  by (simp add: send_miner_request_def post_miner_request_def miner_request_def
      example_config_def example_world_def)


lemma send_miner_request_events:
  assumes run: "send_miner_request cfg model_id deadline w = (cfg', evs, r)"
    and ev: "ev \<in> set evs"
  shows "(\<exists>t hw v m. ev = Log DEBUG (HeartbeatUpdated t hw v m)) \<or>
         (\<exists>body. ev = PostRequest (base_url cfg @ ''/miner_request'') body (miner_id cfg) \<and>
            map_of body ''model_id'' = Some model_id) \<or>
         (\<exists>m. ev = Print m)"
proof (cases "t_heartbeat_check w - last_heartbeat cfg \<ge> 60")
  case stale: True
  show ?thesis
  proof (cases "hardware w")
    case (Inl e)
    from send_miner_request_no_hardware [OF stale Inl run] ev show ?thesis
      by simp
  next
    case (Inr hw)
    from send_miner_request_stale [OF stale Inr run] ev show ?thesis
      by auto
  qed
next
  case False
  from send_miner_request_fresh [OF False run] ev show ?thesis
    by auto
qed

lemma send_miner_request_quiet:
  assumes run: "send_miner_request cfg model_id deadline w = (cfg', evs, r)"
  shows "Log INFO NoJobReceived \<notin> set evs" and "SubmitJobResult a b c d e \<notin> set evs"
    and "Sleep x \<notin> set evs"
  using send_miner_request_events [OF run] by blast+

lemma execute_job_outcome:
  "execute_job cfg job latency w = (evs, r) \<Longrightarrow>
     r \<noteq> Returns False \<and> (\<forall>c. r \<noteq> SysExit c) \<and> Log INFO NoJobReceived \<notin> set evs \<and>
     (\<forall>x. Sleep x \<notin> set evs)"
  by (auto simp: execute_job_def Let_def split: option.splits sum.splits)

lemma execute_job_submits:
  "execute_job cfg job latency w = (evs, r) \<Longrightarrow>
     (\<exists>a b c d e. SubmitJobResult a b c d e \<in> set evs) =
       (map_of job ''job_id'' \<noteq> None \<and> map_of job ''model_id'' \<noteq> None \<and>
        map_of job ''temp_credentials'' \<noteq> None)"
  by (auto simp: execute_job_def Let_def split: option.splits sum.splits)

lemma execute_job_True:
  "execute_job cfg job latency w = (evs, Returns True) \<Longrightarrow>
     \<exists>creds. map_of job ''temp_credentials'' = Some creds \<and> submit_result w = Inr () \<and>
       SubmitJobResult (miner_id cfg) job creds (t_job_start w) latency \<in> set evs"
  by (auto simp: execute_job_def Let_def split: option.splits sum.splits)

lemma execute_job_KeyError:
  "map_of job ''job_id'' = None \<or> map_of job ''model_id'' = None \<Longrightarrow>
     \<exists>evs k. execute_job cfg job latency w = (evs, Raises (KeyError k))"
  by (auto simp: execute_job_def Let_def split: option.splits sum.splits)

lemma process_jobs_idle:
  assumes "local_ids w = Inr ids" and "ids \<noteq> []"
    and "send_miner_request cfg (current_model cfg) (min_deadline cfg) w =
           (cfg', evs, Returns (job, latency))"
    and "\<not> dict_truthy job"
  shows "process_jobs cfg w = (cfg', evs @ [Log INFO NoJobReceived], Returns False)"
  using assms by (simp add: process_jobs_def)

lemma process_jobs_job:
  assumes "local_ids w = Inr ids" and "ids \<noteq> []"
    and "send_miner_request cfg (current_model cfg) (min_deadline cfg) w =
           (cfg', evs, Returns (job, latency))"
    and "dict_truthy job"
  shows "process_jobs cfg w =
           (cfg', evs @ fst (execute_job cfg' (the job) latency w),
            snd (execute_job cfg' (the job) latency w))"
  using assms by (simp add: process_jobs_def split_beta)

text \<open>
  C1, as the code has it. Once the request has come back, \<open>process_jobs\<close> reports idle
  and returns \<open>False\<close> exactly when the response data is \<open>None\<close> or empty; it submits a
  result exactly when the data is non-empty and holds \<open>job_id\<close>, \<open>model_id\<close> and
  \<open>temp_credentials\<close>, and it returns \<open>True\<close> only after submitting; non-empty data
  without \<open>job_id\<close> or \<open>model_id\<close> ends in a \<open>KeyError\<close>, not in the idle report.
\<close>

theorem job_gate:
  assumes ids: "local_ids w = Inr ids" "ids \<noteq> []"
    and send: "send_miner_request cfg (current_model cfg) (min_deadline cfg) w =
                 (cfg', evs, Returns (job, latency))"
  shows "((snd (snd (process_jobs cfg w)) = Returns False) = (\<not> dict_truthy job)) \<and>
         ((Log INFO NoJobReceived \<in> set (fst (snd (process_jobs cfg w)))) = (\<not> dict_truthy job)) \<and>
         ((\<exists>a b c d e. SubmitJobResult a b c d e \<in> set (fst (snd (process_jobs cfg w)))) =
            (dict_truthy job \<and> has_key ''job_id'' job \<and> has_key ''model_id'' job \<and>
             has_key ''temp_credentials'' job)) \<and>
         (snd (snd (process_jobs cfg w)) = Returns True \<longrightarrow>
            (\<exists>a b c d e. SubmitJobResult a b c d e \<in> set (fst (snd (process_jobs cfg w))))) \<and>
         (dict_truthy job \<and> \<not> (has_key ''job_id'' job \<and> has_key ''model_id'' job) \<longrightarrow>
            (\<exists>k. snd (snd (process_jobs cfg w)) = Raises (KeyError k)))"
proof (cases "dict_truthy job")
  case False
  from process_jobs_idle [OF ids send False] False send_miner_request_quiet [OF send]
  show ?thesis
    by simp
next
  case True
  then obtain kvs where j: "job = Some kvs"
    by (auto simp: dict_truthy_def split: option.splits)
  obtain evs' r where x: "execute_job cfg' kvs latency w = (evs', r)"
    by (cases "execute_job cfg' kvs latency w")
  from process_jobs_job [OF ids send True] j x
  have p: "process_jobs cfg w = (cfg', evs @ evs', r)"
    by simp
  have k: "map_of kvs ''job_id'' = None \<or> map_of kvs ''model_id'' = None \<Longrightarrow>
             \<exists>k. r = Raises (KeyError k)"
    using execute_job_KeyError [of kvs cfg' latency w] x by auto
  have t: "r = Returns True \<Longrightarrow> \<exists>a b c d e. SubmitJobResult a b c d e \<in> set evs'"
    using execute_job_True [of cfg' kvs latency w evs'] x by blast
  have c1: "r \<noteq> Returns False" and c2: "Log INFO NoJobReceived \<notin> set (evs @ evs')"
    using execute_job_outcome [OF x] send_miner_request_quiet(1) [OF send] by auto
  have c3: "(\<exists>a b c d e. SubmitJobResult a b c d e \<in> set (evs @ evs')) =
              (has_key ''job_id'' job \<and> has_key ''model_id'' job \<and>
               has_key ''temp_credentials'' job)"
    using execute_job_submits [OF x] send_miner_request_quiet(2) [OF send] j
    by (simp add: has_key_def)
  have c5: "\<not> (has_key ''job_id'' job \<and> has_key ''model_id'' job) \<Longrightarrow>
              \<exists>k. r = Raises (KeyError k)"
    using k j by (auto simp: has_key_def)
  show ?thesis
    using True c1 c2 c3 c5 t by (simp add: p) blast
qed


theorem job_gate_witness:
  "\<exists>a b c d e. SubmitJobResult a b c d e \<in> set (fst (snd (process_jobs example_config
      (example_world\<lparr>response_data := Inr (Some example_job)\<rparr>))))"
  using job_gate [of "example_world\<lparr>response_data := Inr (Some example_job)\<rparr>"
      "[''m1'', ''m2'']" example_config example_config
      "[PostRequest ''https://coordinator/miner_request''
          [(''miner_id'', PStr ''0x123''), (''model_id'', PStr ''m1''),
           (''min_deadline'', PInt 1)] ''0x123'',
        Print (ProcessingRequest (PStr ''j1'') (PStr ''m1''))]"
      "Some example_job" 1]
  by (simp add: example_config_def example_world_def example_job_def send_miner_request_def
      post_miner_request_def miner_request_def warning_events_def job_events_def
      dict_truthy_def has_key_def current_model_def)

text \<open>
  C1 as the claim words it fails: a response \<open>{"message": "busy"}\<close> has neither
  \<open>job_id\<close> nor \<open>model_id\<close>, and the iteration neither reports idle nor returns: it
  raises \<open>KeyError\<close>.
\<close>

theorem job_gate_counterexample:
  "\<not> has_key ''job_id'' (Some [(''message'', PStr ''busy'')]) \<and>
   \<not> has_key ''model_id'' (Some [(''message'', PStr ''busy'')]) \<and>
   process_jobs example_config
     (example_world\<lparr>response_data := Inr (Some [(''message'', PStr ''busy'')])\<rparr>) =
     (example_config,
      [PostRequest ''https://coordinator/miner_request''
          [(''miner_id'', PStr ''0x123''), (''model_id'', PStr ''m1''),
           (''min_deadline'', PInt 1)] ''0x123''],
      Raises (KeyError ''job_id''))"
  by (simp add: example_config_def example_world_def send_miner_request_def
      post_miner_request_def miner_request_def warning_events_def job_events_def
      dict_truthy_def has_key_def current_model_def process_jobs_def execute_job_def)

lemma send_miner_request_no_exit:
  "send_miner_request cfg model_id deadline w = (cfg', evs, r) \<Longrightarrow> r \<noteq> SysExit c"
  by (auto simp: send_miner_request_def post_miner_request_def Let_def
      split: if_splits sum.splits)

lemma execute_job_no_post:
  "execute_job cfg job latency w = (evs, r) \<Longrightarrow> PostRequest url body m \<notin> set evs"
  by (auto simp: execute_job_def Let_def split: option.splits sum.splits)

lemma process_jobs_after_send:
  assumes ids: "local_ids w = Inr ids" "ids \<noteq> []"
    and send: "send_miner_request cfg (current_model cfg) (min_deadline cfg) w = (cfg', evs, r)"
  shows "\<exists>rest r'. process_jobs cfg w = (cfg', evs @ rest, r') \<and>
           (\<forall>url body m. PostRequest url body m \<notin> set rest) \<and> (\<forall>c. r' \<noteq> SysExit c)"
proof (cases r)
  case (Raises e)
  with ids send show ?thesis
    by (simp add: process_jobs_def)
next
  case (SysExit c)
  with send_miner_request_no_exit [OF send, of c] show ?thesis
    by simp
next
  case (Returns p)
  obtain job latency where p: "p = (job, latency)"
    by (cases p)
  note send' = send [unfolded Returns p]
  show ?thesis
  proof (cases "dict_truthy job")
    case False
    from process_jobs_idle [OF ids send' False] show ?thesis
      by simp
  next
    case True
    obtain evs' r' where x: "execute_job cfg' (the job) latency w = (evs', r')"
      by (cases "execute_job cfg' (the job) latency w")
    from process_jobs_job [OF ids send' True] x execute_job_no_post [OF x]
      execute_job_outcome [OF x]
    show ?thesis
      by simp
  qed
qed

lemma process_jobs_no_model_trace:
  assumes none: "loaded_models cfg = []" and ids: "local_ids w = Inr ids" "ids \<noteq> []"
  shows "current_model cfg = PNone \<and>
         (\<exists>rest. fst (snd (process_jobs cfg w)) =
                    fst (snd (send_miner_request cfg PNone (min_deadline cfg) w)) @ rest) \<and>
         (\<forall>url body m. PostRequest url body m \<in> set (fst (snd (process_jobs cfg w))) \<longrightarrow>
            map_of body ''model_id'' = Some PNone) \<and>
         ((t_heartbeat_check w - last_heartbeat cfg \<ge> 60 \<longrightarrow> (\<exists>hw. hardware w = Inr hw)) \<longrightarrow>
            (\<exists>body. PostRequest (base_url cfg @ ''/miner_request'') body (miner_id cfg)
                      \<in> set (fst (snd (process_jobs cfg w))) \<and>
                    map_of body ''model_id'' = Some PNone)) \<and>
         (\<forall>c. snd (snd (process_jobs cfg w)) \<noteq> SysExit c)"
proof -
  have cur: "current_model cfg = PNone"
    using none by (simp add: current_model_def)
  obtain cfg' evs r where send: "send_miner_request cfg PNone (min_deadline cfg) w = (cfg', evs, r)"
    by (cases "send_miner_request cfg PNone (min_deadline cfg) w")
  from process_jobs_after_send [OF ids send [folded cur]] obtain rest r' where
    p: "process_jobs cfg w = (cfg', evs @ rest, r')" and
    n: "\<And>url body m. PostRequest url body m \<notin> set rest" and
    x: "\<And>c. r' \<noteq> SysExit c"
    by blast
  have b: "\<And>url body m. PostRequest url body m \<in> set evs \<Longrightarrow> map_of body ''model_id'' = Some PNone"
    using send_miner_request_events [OF send] by blast
  have s: "\<exists>body. PostRequest (base_url cfg @ ''/miner_request'') body (miner_id cfg) \<in> set evs"
    if h: "t_heartbeat_check w - last_heartbeat cfg \<ge> 60 \<longrightarrow> (\<exists>hw. hardware w = Inr hw)"
  proof (cases "t_heartbeat_check w - last_heartbeat cfg \<ge> 60")
    case True
    with h obtain hw where hw: "hardware w = Inr hw"
      by blast
    from send_miner_request_stale [OF True hw send] obtain body where
      "PostRequest (base_url cfg @ ''/miner_request'') body (miner_id cfg) \<in> set evs"
      by fastforce
    then show ?thesis
      by blast
  next
    case False
    from send_miner_request_fresh [OF False send] obtain body where
      "PostRequest (base_url cfg @ ''/miner_request'') body (miner_id cfg) \<in> set evs"
      by fastforce
    then show ?thesis
      by blast
  qed
  have s': "(t_heartbeat_check w - last_heartbeat cfg \<ge> 60 \<longrightarrow> (\<exists>hw. hardware w = Inr hw)) \<Longrightarrow>
             \<exists>body. PostRequest (base_url cfg @ ''/miner_request'') body (miner_id cfg) \<in> set evs
                \<and> map_of body ''model_id'' = Some PNone"
    using s b by blast
  show ?thesis
    using cur n x b s' by (auto simp: p send)
qed

lemma send_miner_request_outcome:
  "snd (snd (send_miner_request cfg model_id deadline w)) =
     (if t_heartbeat_check w - last_heartbeat cfg \<ge> 60 \<and> (\<exists>e. hardware w = Inl e)
      then Raises (projl (hardware w))
      else case miner_response w of
             Inl e \<Rightarrow> Raises e
           | Inr resp \<Rightarrow>
               (case response_data w of
                  Inl e \<Rightarrow> Raises e
                | Inr d \<Rightarrow> Returns (d, t_end w - t_start w)))"
  by (simp add: send_miner_request_def post_miner_request_def Let_def split_beta
      split: sum.splits)

lemma execute_job_outcome_eq:
  "snd (execute_job cfg job latency w) =
     (case map_of job ''job_id'' of
        None \<Rightarrow> Raises (KeyError ''job_id'')
      | Some jid \<Rightarrow>
          (case map_of job ''model_id'' of
             None \<Rightarrow> Raises (KeyError ''model_id'')
           | Some mid \<Rightarrow>
               (case map_of job ''temp_credentials'' of
                  None \<Rightarrow> Raises (KeyError ''temp_credentials'')
                | Some creds \<Rightarrow>
                    (case submit_result w of Inl e \<Rightarrow> Raises e | Inr u \<Rightarrow> Returns True))))"
  by (simp add: execute_job_def Let_def split: option.splits sum.splits)

lemma process_jobs_outcome:
  "snd (snd (process_jobs cfg w)) =
     (case local_ids w of
        Inl e \<Rightarrow> Raises e
      | Inr ids \<Rightarrow>
          if ids = [] then SysExit 0
          else
            (case snd (snd (send_miner_request cfg (current_model cfg) (min_deadline cfg) w)) of
               Raises e \<Rightarrow> Raises e
             | SysExit c \<Rightarrow> SysExit c
             | Returns p \<Rightarrow>
                 if \<not> dict_truthy (fst p) then Returns False
                 else snd (execute_job cfg (the (fst p)) (snd p) w)))"
proof -
  obtain cfg' evs r where
    send: "send_miner_request cfg (current_model cfg) (min_deadline cfg) w = (cfg', evs, r)"
    by (cases "send_miner_request cfg (current_model cfg) (min_deadline cfg) w")
  have x: "snd (execute_job cfg' job latency w) = snd (execute_job cfg job latency w)"
    for job latency
    by (simp only: execute_job_outcome_eq)
  show ?thesis
    by (cases r)
      (simp_all add: process_jobs_def send x split_beta split: sum.splits)
qed

text \<open>
  C10. With no model loaded and a non-empty local storage, \<open>process_jobs\<close> picks
  \<open>None\<close> as the current model and goes on to \<open>send_miner_request\<close> with it: its
  trace begins with that call's trace, every request in it has \<open>model_id\<close> \<open>None\<close>,
  the request is there whenever the heartbeat did not fail on the hardware
  description, and the process does not exit. The call does not fail for want of a
  model: it raises only what a library call raised or the \<open>KeyError\<close> of a job
  without one of its fields, it returns false when the coordinator has no job and true
  when a complete job was submitted, and its outcome is the one it has with any other
  set of loaded models. Nothing checks that a model is active.
\<close>

theorem no_loaded_model_requests_none:
  assumes none: "loaded_models cfg = []" and ids: "local_ids w = Inr ids" "ids \<noteq> []"
  shows "current_model cfg = PNone \<and>
         (\<exists>rest. fst (snd (process_jobs cfg w)) =
                    fst (snd (send_miner_request cfg PNone (min_deadline cfg) w)) @ rest) \<and>
         (\<forall>url body m. PostRequest url body m \<in> set (fst (snd (process_jobs cfg w))) \<longrightarrow>
            map_of body ''model_id'' = Some PNone) \<and>
         ((t_heartbeat_check w - last_heartbeat cfg \<ge> 60 \<longrightarrow> (\<exists>hw. hardware w = Inr hw)) \<longrightarrow>
            (\<exists>body. PostRequest (base_url cfg @ ''/miner_request'') body (miner_id cfg)
                      \<in> set (fst (snd (process_jobs cfg w))) \<and>
                    map_of body ''model_id'' = Some PNone)) \<and>
         (\<forall>c. snd (snd (process_jobs cfg w)) \<noteq> SysExit c) \<and>
         (\<forall>e. snd (snd (process_jobs cfg w)) = Raises e \<longrightarrow>
            hardware w = Inl e \<or> miner_response w = Inl e \<or> response_data w = Inl e \<or>
            submit_result w = Inl e \<or>
            (\<exists>job k. response_data w = Inr (Some job) \<and> map_of job k = None \<and>
               e = KeyError k)) \<and>
         (\<forall>resp d.
            (t_heartbeat_check w - last_heartbeat cfg \<ge> 60 \<longrightarrow> (\<exists>hw. hardware w = Inr hw)) \<and>
            miner_response w = Inr resp \<and> response_data w = Inr d \<longrightarrow>
              (\<not> dict_truthy d \<longrightarrow> snd (snd (process_jobs cfg w)) = Returns False) \<and>
              (dict_truthy d \<and> map_of (the d) ''job_id'' \<noteq> None \<and>
               map_of (the d) ''model_id'' \<noteq> None \<and>
               map_of (the d) ''temp_credentials'' \<noteq> None \<and> submit_result w = Inr () \<longrightarrow>
                 snd (snd (process_jobs cfg w)) = Returns True)) \<and>
         (\<forall>ms. snd (snd (process_jobs (cfg\<lparr>loaded_models := ms\<rparr>) w)) =
                snd (snd (process_jobs cfg w)))"
proof -
  have raises: "hardware w = Inl e \<or> miner_response w = Inl e \<or> response_data w = Inl e \<or>
      submit_result w = Inl e \<or>
      (\<exists>job k. response_data w = Inr (Some job) \<and> map_of job k = None \<and> e = KeyError k)"
    if "snd (snd (process_jobs cfg w)) = Raises e" for e
    using that ids
    by (auto simp: process_jobs_outcome send_miner_request_outcome execute_job_outcome_eq
        dict_truthy_def split: if_splits sum.splits option.splits)
  have returns: "(\<not> dict_truthy d \<longrightarrow> snd (snd (process_jobs cfg w)) = Returns False) \<and>
      (dict_truthy d \<and> map_of (the d) ''job_id'' \<noteq> None \<and>
       map_of (the d) ''model_id'' \<noteq> None \<and>
       map_of (the d) ''temp_credentials'' \<noteq> None \<and> submit_result w = Inr () \<longrightarrow>
         snd (snd (process_jobs cfg w)) = Returns True)"
    if "t_heartbeat_check w - last_heartbeat cfg \<ge> 60 \<longrightarrow> (\<exists>hw. hardware w = Inr hw)"
      and "miner_response w = Inr resp" and "response_data w = Inr d" for resp d
    using that ids
    by (auto simp: process_jobs_outcome send_miner_request_outcome execute_job_outcome_eq)
  have same: "snd (snd (process_jobs (cfg\<lparr>loaded_models := ms\<rparr>) w)) =
      snd (snd (process_jobs cfg w))" for ms
  proof -
    have a: "snd (snd (send_miner_request (cfg\<lparr>loaded_models := ms\<rparr>) m d w)) =
        snd (snd (send_miner_request cfg (current_model cfg) d w))" for m d
      by (simp add: send_miner_request_outcome)
    have b: "snd (execute_job (cfg\<lparr>loaded_models := ms\<rparr>) job l w) =
        snd (execute_job cfg job l w)" for job l
      by (simp only: execute_job_outcome_eq)
    show ?thesis
      by (simp add: process_jobs_outcome a b cong: sum.case_cong if_cong outcome.case_cong)
  qed
  from process_jobs_no_model_trace [OF none ids] raises returns same show ?thesis
    by (simp del: ex_simps)
qed

theorem no_loaded_model_requests_none_witness:
  "process_jobs (example_config\<lparr>loaded_models := []\<rparr>) example_world =
     (example_config\<lparr>loaded_models := []\<rparr>,
      [PostRequest ''https://coordinator/miner_request''
         [(''miner_id'', PStr ''0x123''), (''model_id'', PNone), (''min_deadline'', PInt 1)]
         ''0x123'',
       Log INFO NoJobReceived],
      Returns False)"
  using no_loaded_model_requests_none [of "example_config\<lparr>loaded_models := []\<rparr>" example_world
      "[''m1'', ''m2'']"]
  by (simp add: example_config_def example_world_def send_miner_request_def
      post_miner_request_def miner_request_def warning_events_def job_events_def
      dict_truthy_def has_key_def current_model_def process_jobs_def)

subsection \<open>The worker loop\<close>

lemma check_and_reload_model_throttled:
  "t_check w - t0 < reload_interval cfg \<Longrightarrow>
     check_and_reload_model cfg t0 w = (cfg, [], Returns t0)"
  by (simp add: check_and_reload_model_def returned_signal_time_def)


lemma process_jobs_no_models:
  "local_ids w = Inr [] \<Longrightarrow> process_jobs cfg w = (cfg, [Log DEBUG NoModelsFound], SysExit 0)"
  by (simp add: process_jobs_def)








text \<open>
  C5. When the local model storage is empty in the first turn of the worker loop and
  less than \<open>reload_interval\<close> seconds have passed since the loop took its first clock
  reading, the process exits with status 0 in that turn, whatever the later turns would
  have read: the trace of the loop is the one debug message, so there is no job request
  and no signal request in it, and the exit is not caught by the handler of the loop.
\<close>

theorem empty_local_models_exit:
  assumes "local_ids w = Inr []" and "t_check w - t0 < reload_interval cfg"
  shows "main_loop cfg t0 (w # ws) = ([Log DEBUG NoModelsFound], Exited 0)"
  using assms
  by (simp add: main_iteration_def try_body_def check_and_reload_model_throttled
      process_jobs_no_models)

theorem empty_local_models_exit_witness:
  "main_loop example_config 1000 [example_world\<lparr>local_ids := Inr []\<rparr>] =
     ([Log DEBUG NoModelsFound], Exited 0)"
  using empty_local_models_exit [where w = "example_world\<lparr>local_ids := Inr []\<rparr>"
      and ?t0.0 = 1000 and cfg = example_config and ws = "[]"]
  by (simp add: example_config_def example_world_def)

text \<open>
  A positive \<open>reload_interval\<close> does not by itself throttle the first check: with an
  interval of a microsecond and ten microseconds between the two clock readings the
  check is due, and the worker posts to the signal endpoint before it exits.
\<close>

theorem empty_local_models_counterexample:
  "0 < reload_interval hasty_config \<and> local_ids empty_world = Inr [] \<and>
   main_loop hasty_config 1000 [empty_world] =
     ([PostRequest ''https://signal/miner_signal''
         [(''miner_id'', PStr ''0x123''),
          (''options'', PDict [(''exclude_sdxl'', PBool False)])] ''0x123'',
       Log ERROR (FailedSignalResponse ''0x123''), Log DEBUG NoModelsFound],
      Exited 0)"
  by (simp add: hasty_config_def empty_world_def example_config_def example_world_def
      main_iteration_def try_body_def check_and_reload_model_def signal_request_def
      returned_signal_time_def process_jobs_def)

subsection \<open>Miner identities\<close>

lemma validate_miner_ids_prints:
  "ev \<in> set (fst (validate_miner_ids i xs)) \<Longrightarrow> \<exists>m. ev = Print m"
  by (induction i xs rule: validate_miner_ids.induct) (auto simp: split_beta split: if_splits)

lemma validate_miner_ids_present:
  "None \<notin> set xs \<Longrightarrow>
     snd (validate_miner_ids i xs) = None \<and>
     set (fst (validate_miner_ids i xs)) =
       {Print (MinerIdWithout0x m (i + k)) | k m.
          k < length xs \<and> xs ! k = Some m \<and> \<not> starts_with_0x m}"
proof (induction i xs rule: validate_miner_ids.induct)
  case (1 i)
  then show ?case by simp
next
  case (2 i rest)
  then show ?case by simp
next
  case (3 i m rest)
  then have ih: "snd (validate_miner_ids (Suc i) rest) = None"
    "set (fst (validate_miner_ids (Suc i) rest)) =
       {Print (MinerIdWithout0x x (Suc i + k)) | k x.
          k < length rest \<and> rest ! k = Some x \<and> \<not> starts_with_0x x}"
    by simp_all
  have "{Print (MinerIdWithout0x x (i + k)) | k x.
          k < length (Some m # rest) \<and> (Some m # rest) ! k = Some x \<and> \<not> starts_with_0x x} =
        (if \<not> starts_with_0x m then {Print (MinerIdWithout0x m i)} else {}) \<union>
        {Print (MinerIdWithout0x x (Suc i + k)) | k x.
          k < length rest \<and> rest ! k = Some x \<and> \<not> starts_with_0x x}"
    by (auto simp: less_Suc_eq_0_disj)
  with ih show ?case
    by (simp add: split_beta)
qed

lemma validate_miner_ids_missing:
  "None \<in> set xs \<Longrightarrow>
     \<exists>k<length xs. xs ! k = None \<and> (\<forall>j<k. xs ! j \<noteq> None) \<and>
       snd (validate_miner_ids i xs) = Some (ValueError (MinerIdForGpuNotFound (i + k)))"
proof (induction i xs rule: validate_miner_ids.induct)
  case (1 i)
  then show ?case by simp
next
  case (2 i rest)
  show ?case
    by (rule exI [of _ 0]) simp
next
  case (3 i m rest)
  then obtain k where k: "k < length rest" "rest ! k = None" "\<forall>j<k. rest ! j \<noteq> None"
    "snd (validate_miner_ids (Suc i) rest) = Some (ValueError (MinerIdForGpuNotFound (Suc i + k)))"
    by auto
  show ?case
    by (rule exI [of _ "Suc k"]) (use k in \<open>auto simp: split_beta less_Suc_eq_0_disj\<close>)
qed

lemma set_map_upt_None: "(None \<in> set (map env [0..<n])) = (\<exists>j<n. env j = None)"
proof
  assume "None \<in> set (map env [0..<n])"
  then obtain j where "j \<in> {0..<n}" and "None = env j"
    by auto
  then show "\<exists>j<n. env j = None"
    by (intro exI [of _ j]) simp
next
  assume "\<exists>j<n. env j = None"
  then obtain j where j: "j < n" "env j = None"
    by blast
  then have "env j \<in> env ` {0..<n}"
    by (intro imageI) simp
  with j show "None \<in> set (map env [0..<n])"
    by simp
qed

lemma MinerConfig_missing:
  assumes "\<exists>j<num_cuda_devices base. env j = None"
  shows "\<exists>j<num_cuda_devices base. env j = None \<and> (\<forall>k<j. env k \<noteq> None) \<and>
           snd (MinerConfig base env i) = Inl (ValueError (MinerIdForGpuNotFound j))"
proof -
  let ?xs = "map env [0..<num_cuda_devices base]"
  from assms have "None \<in> set ?xs"
    by (simp only: set_map_upt_None)
  from validate_miner_ids_missing [OF this, of 0] obtain k where
    k: "k < num_cuda_devices base" "?xs ! k = None" "\<forall>j<k. ?xs ! j \<noteq> None"
    "snd (validate_miner_ids 0 ?xs) = Some (ValueError (MinerIdForGpuNotFound k))"
    by auto
  have "snd (MinerConfig base env i) = Inl (ValueError (MinerIdForGpuNotFound k))"
    using k(4)
    by (cases "validate_miner_ids 0 ?xs")
      (simp add: MinerConfig_def load_and_validate_miner_ids_def)
  with k show ?thesis
    by auto
qed

lemma MinerConfig_present:
  assumes i: "i < num_cuda_devices base"
    and all: "\<forall>j<num_cuda_devices base. env j \<noteq> None"
    and m: "env i = Some m" "m \<noteq> []"
  shows "snd (MinerConfig base env i) = Inr (base\<lparr>miner_id := m\<rparr>) \<and>
         set (fst (MinerConfig base env i)) =
           {Print (MinerIdWithout0x x j) | j x.
              j < num_cuda_devices base \<and> env j = Some x \<and> \<not> starts_with_0x x}"
proof -
  let ?n = "num_cuda_devices base"
  let ?xs = "map env [0..<?n]"
  from all have "None \<notin> set ?xs"
    by (simp only: set_map_upt_None) simp
  from validate_miner_ids_present [OF this, of 0]
  have v: "snd (validate_miner_ids 0 ?xs) = None"
    and w: "set (fst (validate_miner_ids 0 ?xs)) =
       {Print (MinerIdWithout0x x j) | j x. j < ?n \<and> env j = Some x \<and> \<not> starts_with_0x x}"
    by auto
  have a: "assign_miner_id ?n ?xs i = ([], Inr m)"
  proof (cases "?n > 1")
    case True
    with i m show ?thesis
      by (simp add: assign_miner_id_def index_def str_truthy_def)
  next
    case False
    with i have "i = 0" and "?n = 1"
      by auto
    with m show ?thesis
      by (simp add: assign_miner_id_def assign_first_def index_def str_truthy_def)
  qed
  show ?thesis
    using v w a
    by (cases "validate_miner_ids 0 ?xs")
      (simp add: MinerConfig_def load_and_validate_miner_ids_def)
qed

lemma main_construction_fails:
  assumes "base_config (s::startup) = Inr base" and "set_device s = Inr u"
    and "snd (MinerConfig base (getenv s) i) = Inl e"
  shows "main i s ws = (fst (MinerConfig base (getenv s) i), Crashed e)"
  using assms
  by (cases "MinerConfig base (getenv s) i") (simp add: main_def load_config_def)

lemma MinerConfig_blank:
  assumes i: "i < num_cuda_devices base"
    and all: "\<forall>j<num_cuda_devices base. env j \<noteq> None"
    and blank: "env i = Some []"
  shows "(\<forall>m. env 0 = Some m \<and> m \<noteq> [] \<longrightarrow>
            snd (MinerConfig base env i) = Inr (base\<lparr>miner_id := m\<rparr>)) \<and>
         (env 0 = Some [] \<longrightarrow>
            snd (MinerConfig base env i) = Inl (ValueError MinerIdNotFoundInEnv))"
proof -
  let ?n = "num_cuda_devices base"
  let ?xs = "map env [0..<?n]"
  from all have "None \<notin> set ?xs"
    by (simp only: set_map_upt_None) simp
  from validate_miner_ids_present [OF this, of 0]
  have v: "snd (validate_miner_ids 0 ?xs) = None"
    by simp
  from i have pos: "0 < ?n"
    by simp
  have f: "assign_first ?xs =
      (if str_truthy (env 0) then ([], Inr (the (env 0)))
       else ([Print MinerIdNotFound], Inl (ValueError MinerIdNotFoundInEnv)))"
    using pos by (simp add: assign_first_def index_def)
  have a: "assign_miner_id ?n ?xs i = assign_first ?xs"
    using i blank by (simp add: assign_miner_id_def index_def str_truthy_def)
  show ?thesis
    using v
    by (cases "validate_miner_ids 0 ?xs")
      (auto simp: MinerConfig_def load_and_validate_miner_ids_def a f str_truthy_def)
qed

text \<open>
  C8. For a device index \<open>i\<close> below \<open>num_cuda_devices\<close>: when one of the variables
  \<open>MINER_ID_j\<close>, \<open>j\<close> below \<open>num_cuda_devices\<close>, is missing, the constructor raises
  \<open>ValueError\<close> for the first missing one, and the worker stops there, before its loop,
  with what the constructor printed; when all are set and \<open>MINER_ID_i\<close> is not blank,
  device \<open>i\<close> is given the value of \<open>MINER_ID_i\<close>, and what is printed is a warning for
  each identity without the prefix \<open>0x\<close>; when \<open>MINER_ID_i\<close> is blank, device \<open>i\<close> is
  given the value of \<open>MINER_ID_0\<close>, or \<open>ValueError\<close> is raised when that is blank too.
  No two identities are compared.
\<close>

theorem miner_id_assignment:
  assumes i: "i < num_cuda_devices base"
  shows "((\<exists>j<num_cuda_devices base. env j = None) \<longrightarrow>
            (\<exists>j<num_cuda_devices base. env j = None \<and> (\<forall>k<j. env k \<noteq> None) \<and>
               snd (MinerConfig base env i) = Inl (ValueError (MinerIdForGpuNotFound j)))) \<and>
         ((\<forall>j<num_cuda_devices base. env j \<noteq> None) \<longrightarrow>
            (\<forall>m. env i = Some m \<and> m \<noteq> [] \<longrightarrow>
               snd (MinerConfig base env i) = Inr (base\<lparr>miner_id := m\<rparr>) \<and>
               set (fst (MinerConfig base env i)) =
                 {Print (MinerIdWithout0x x j) | j x.
                    j < num_cuda_devices base \<and> env j = Some x \<and> \<not> starts_with_0x x}) \<and>
            (env i = Some [] \<longrightarrow>
               (\<forall>m. env 0 = Some m \<and> m \<noteq> [] \<longrightarrow>
                  snd (MinerConfig base env i) = Inr (base\<lparr>miner_id := m\<rparr>)) \<and>
               (env 0 = Some [] \<longrightarrow>
                  snd (MinerConfig base env i) = Inl (ValueError MinerIdNotFoundInEnv)))) \<and>
         (\<forall>(s::startup) ws e u. base_config s = Inr base \<and> getenv s = env \<and>
            set_device s = Inr u \<and> snd (MinerConfig base env i) = Inl e \<longrightarrow>
              main i s ws = (fst (MinerConfig base env i), Crashed e))"
proof (intro conjI)
  show "(\<exists>j<num_cuda_devices base. env j = None) \<longrightarrow>
          (\<exists>j<num_cuda_devices base. env j = None \<and> (\<forall>k<j. env k \<noteq> None) \<and>
             snd (MinerConfig base env i) = Inl (ValueError (MinerIdForGpuNotFound j)))"
    by (intro impI MinerConfig_missing)
next
  show "(\<forall>j<num_cuda_devices base. env j \<noteq> None) \<longrightarrow>
          (\<forall>m. env i = Some m \<and> m \<noteq> [] \<longrightarrow>
             snd (MinerConfig base env i) = Inr (base\<lparr>miner_id := m\<rparr>) \<and>
             set (fst (MinerConfig base env i)) =
               {Print (MinerIdWithout0x x j) | j x.
                  j < num_cuda_devices base \<and> env j = Some x \<and> \<not> starts_with_0x x}) \<and>
          (env i = Some [] \<longrightarrow>
             (\<forall>m. env 0 = Some m \<and> m \<noteq> [] \<longrightarrow>
                snd (MinerConfig base env i) = Inr (base\<lparr>miner_id := m\<rparr>)) \<and>
             (env 0 = Some [] \<longrightarrow>
                snd (MinerConfig base env i) = Inl (ValueError MinerIdNotFoundInEnv)))"
  proof (intro impI)
    assume all: "\<forall>j<num_cuda_devices base. env j \<noteq> None"
    have p: "\<forall>m. env i = Some m \<and> m \<noteq> [] \<longrightarrow>
          snd (MinerConfig base env i) = Inr (base\<lparr>miner_id := m\<rparr>) \<and>
          set (fst (MinerConfig base env i)) =
            {Print (MinerIdWithout0x x j) | j x.
               j < num_cuda_devices base \<and> env j = Some x \<and> \<not> starts_with_0x x}"
    proof (intro allI impI)
      fix m
      assume "env i = Some m \<and> m \<noteq> []"
      then have m: "env i = Some m" "m \<noteq> []"
        by simp_all
      show "snd (MinerConfig base env i) = Inr (base\<lparr>miner_id := m\<rparr>) \<and>
          set (fst (MinerConfig base env i)) =
            {Print (MinerIdWithout0x x j) | j x.
               j < num_cuda_devices base \<and> env j = Some x \<and> \<not> starts_with_0x x}"
        by (rule MinerConfig_present [OF i all m])
    qed
    have b: "env i = Some [] \<longrightarrow>
             (\<forall>m. env 0 = Some m \<and> m \<noteq> [] \<longrightarrow>
                snd (MinerConfig base env i) = Inr (base\<lparr>miner_id := m\<rparr>)) \<and>
             (env 0 = Some [] \<longrightarrow>
                snd (MinerConfig base env i) = Inl (ValueError MinerIdNotFoundInEnv))"
      by (intro impI MinerConfig_blank [OF i all])
    from p b show "(\<forall>m. env i = Some m \<and> m \<noteq> [] \<longrightarrow>
             snd (MinerConfig base env i) = Inr (base\<lparr>miner_id := m\<rparr>) \<and>
             set (fst (MinerConfig base env i)) =
               {Print (MinerIdWithout0x x j) | j x.
                  j < num_cuda_devices base \<and> env j = Some x \<and> \<not> starts_with_0x x}) \<and>
          (env i = Some [] \<longrightarrow>
             (\<forall>m. env 0 = Some m \<and> m \<noteq> [] \<longrightarrow>
                snd (MinerConfig base env i) = Inr (base\<lparr>miner_id := m\<rparr>)) \<and>
             (env 0 = Some [] \<longrightarrow>
                snd (MinerConfig base env i) = Inl (ValueError MinerIdNotFoundInEnv)))"
      by (rule conjI)
  qed
next
  show "\<forall>(s::startup) ws e u. base_config s = Inr base \<and> getenv s = env \<and>
          set_device s = Inr u \<and> snd (MinerConfig base env i) = Inl e \<longrightarrow>
            main i s ws = (fst (MinerConfig base env i), Crashed e)"
  proof (intro allI impI)
    fix s :: startup and ws :: "world list" and e :: exn and u :: unit
    assume h: "base_config s = Inr base \<and> getenv s = env \<and> set_device s = Inr u \<and>
      snd (MinerConfig base env i) = Inl e"
    then have "snd (MinerConfig base (getenv s) i) = Inl e"
      by simp
    with h have "main i s ws = (fst (MinerConfig base (getenv s) i), Crashed e)"
      by (intro main_construction_fails [of s base u]) simp_all
    with h show "main i s ws = (fst (MinerConfig base env i), Crashed e)"
      by simp
  qed
qed

theorem miner_id_assignment_witness:
  "(1::nat) < num_cuda_devices (example_config\<lparr>num_cuda_devices := 2\<rparr>) \<and>
   same_ids 1 = Some ''0x123'' \<and>
   snd (MinerConfig (example_config\<lparr>num_cuda_devices := 2\<rparr>) same_ids 1) =
     Inr (example_config\<lparr>num_cuda_devices := 2, miner_id := ''0x123''\<rparr>)"
  using miner_id_assignment [where i = 1 and base = "example_config\<lparr>num_cuda_devices := 2\<rparr>"
      and env = same_ids]
  by (simp add: same_ids_def)

text \<open>
  Two devices, \<open>MINER_ID_0\<close> and \<open>MINER_ID_1\<close> both present and different, the second
  blank: both devices are given the value of \<open>MINER_ID_0\<close>.
\<close>

theorem miner_id_not_distinct_counterexample:
  "blank_second 0 = Some ''0x123'' \<and> blank_second 1 = Some [] \<and>
   snd (MinerConfig (example_config\<lparr>num_cuda_devices := 2\<rparr>) blank_second 0) =
     Inr (example_config\<lparr>num_cuda_devices := 2, miner_id := ''0x123''\<rparr>) \<and>
   snd (MinerConfig (example_config\<lparr>num_cuda_devices := 2\<rparr>) blank_second 1) =
     Inr (example_config\<lparr>num_cuda_devices := 2, miner_id := ''0x123''\<rparr>)"
  by (simp add: MinerConfig_def load_and_validate_miner_ids_def assign_miner_id_def
      assign_first_def index_def str_truthy_def blank_second_def starts_with_0x_def
      numeral_2_eq_2)

subsection \<open>The supervisor\<close>

lemma assign_miner_id_prints:
  "ev \<in> set (fst (assign_miner_id n xs i)) \<Longrightarrow> \<exists>m. ev = Print m"
  by (auto simp: assign_miner_id_def assign_first_def split: sum.splits if_splits)

lemma MinerConfig_prints:
  "ev \<in> set (fst (MinerConfig base env i)) \<Longrightarrow> \<exists>m. ev = Print m"
proof -
  assume ev: "ev \<in> set (fst (MinerConfig base env i))"
  let ?xs = "map env [0..<num_cuda_devices base]"
  obtain evs r where v: "validate_miner_ids 0 ?xs = (evs, r)"
    by (cases "validate_miner_ids 0 ?xs")
  obtain evs' r' where a: "assign_miner_id (num_cuda_devices base) ?xs i = (evs', r')"
    by (cases "assign_miner_id (num_cuda_devices base) ?xs i")
  from ev v a have "ev \<in> set evs \<or> ev \<in> set evs'"
    by (auto simp: MinerConfig_def load_and_validate_miner_ids_def
        split: option.splits sum.splits)
  with validate_miner_ids_prints [of ev 0 ?xs] assign_miner_id_prints [of ev "num_cuda_devices base" ?xs i] v a
  show ?thesis
    by auto
qed

lemma load_config_prints:
  "ev \<in> set (fst (load_config s i)) \<Longrightarrow> \<exists>m. ev = Print m"
  using MinerConfig_prints
  by (auto simp: load_config_def split: sum.splits)

text \<open>
  C9. Once the configuration is loaded: when \<open>num_cuda_devices\<close> is greater than the
  number of CUDA devices of the host, the supervisor prints the mismatch and exits with
  status 1, and its trace has no worker process and no model updater in it; otherwise,
  when \<open>check_cuda\<close> and the download of the configuration files return, it starts the
  model updater and one worker for each device index.
\<close>

theorem device_mismatch_exit:
  assumes load: "load_config s 0 = (evs, Inr cfg0)"
    and init: "initialize_logging_and_args s cfg0 = Inr cfg"
  shows "(num_cuda_devices cfg > device_count s \<longrightarrow>
            supervisor s = (evs @ [Print DevicesGreaterThanAvailable], Exited 1) \<and>
            (\<forall>i. SpawnWorker i \<notin> set (fst (supervisor s))) \<and>
            StartModelUpdater \<notin> set (fst (supervisor s))) \<and>
         (num_cuda_devices cfg \<le> device_count s \<and> check_cuda s = Returns () \<and>
          fetch_and_download_config_files s = Inr () \<longrightarrow>
            supervisor s =
              (evs @ [StartModelUpdater] @ map SpawnWorker [0..<num_cuda_devices cfg],
               WaitingForWorkers))"
proof -
  have p: "ev \<in> set evs \<Longrightarrow> \<exists>m. ev = Print m" for ev
    using load_config_prints [of ev s 0] load by simp
  have n: "SpawnWorker i \<notin> set evs" for i
    using p [of "SpawnWorker i"] by auto
  have u: "StartModelUpdater \<notin> set evs"
    using p [of StartModelUpdater] by auto
  show ?thesis
    using load init n u by (simp add: supervisor_def)
qed

theorem device_mismatch_exit_witness:
  "num_cuda_devices (example_config\<lparr>num_cuda_devices := 2\<rparr>) > device_count example_startup \<and>
   supervisor example_startup = ([Print DevicesGreaterThanAvailable], Exited 1)"
  using device_mismatch_exit [where s = example_startup and evs = "[]"
      and ?cfg0.0 = "example_config\<lparr>num_cuda_devices := 2, miner_id := ''0x123''\<rparr>"
      and cfg = "example_config\<lparr>num_cuda_devices := 2, miner_id := ''0x123''\<rparr>"]
  by (simp add: example_startup_def load_config_def MinerConfig_def
      load_and_validate_miner_ids_def assign_miner_id_def assign_first_def index_def
      str_truthy_def same_ids_def starts_with_0x_def numeral_2_eq_2 example_config_def)

end
